theory Spec2Isabelle
  imports Main "HOL-Library.AList"
begin

section \<open>Python values and exceptions used by \<open>distributed/node.py\<close>\<close>

text \<open>
  The exceptions that travel through \<open>ServerNode\<close>. \<open>ValueError_port\<close> is the
  \<open>raise ValueError(port)\<close> of line 116; \<open>ValueError_int\<close> is what the builtin
  \<open>int\<close> raises on a string it cannot read (line 112); \<open>TimeoutError\<close> is
  \<open>distributed.utils.TimeoutError\<close> with its message (line 184);
  \<open>AsyncioTimeoutError\<close> is what \<open>asyncio.wait_for\<close> raises when the time is up;
  \<open>IndexError\<close> is an out-of-range subscript. \<open>Collaborator (Raised b msg)\<close> is any
  exception raised by code outside this file (a service class, the connection pool,
  \<open>close\<close>, the HTTP server): \<open>b\<close> says whether its class derives from \<open>Exception\<close>
  (\<open>KeyboardInterrupt\<close> and \<open>SystemExit\<close> do not), \<open>msg\<close> is \<open>str(e)\<close>.
\<close>

datatype pyval = VStr string | VInt int

datatype raised = Raised (from_Exception: bool) (str: string)

datatype pyexc =
    ValueError_port "pyval list"
  | ValueError_int string
  | TimeoutError string
  | AsyncioTimeoutError
  | IndexError
  | Collaborator raised

fun is_Exception :: "pyexc \<Rightarrow> bool" where
  "is_Exception (Collaborator r) = from_Exception r"
| "is_Exception _ = True"

section \<open>LogCapture: \<open>ServerNode.get_logs\<close>\<close>

text \<open>
  A \<open>logging.LogRecord\<close> as far as \<open>get_logs\<close> reads it: its \<open>levelname\<close> and the
  text the handler's formatter works on. The deque of the \<open>DequeHandler\<close> is a list,
  oldest record first (records are appended on the right).
\<close>

record log_record =
  levelname :: string
  message :: string

text \<open>
  Subscripting a deque: a negative index counts from the right end, and an index outside
  the deque raises \<open>IndexError\<close>. Note that \<open>- 0 = 0\<close> addresses the left end.
\<close>

definition deque_getitem :: "'a list \<Rightarrow> int \<Rightarrow> pyexc + 'a" where
  "deque_getitem dq i =
     (if 0 \<le> i \<and> i < int (length dq) then Inr (dq ! nat i)
      else if i < 0 \<and> - i \<le> int (length dq) then Inr (dq ! nat (int (length dq) + i))
      else Inl IndexError)"

text \<open>A list comprehension whose element expression may raise: the first raise wins.\<close>

fun comprehension :: "('i \<Rightarrow> pyexc + 'a) \<Rightarrow> 'i list \<Rightarrow> pyexc + 'a list" where
  "comprehension f [] = Inr []"
| "comprehension f (i # is) =
     (case f i of
        Inl e \<Rightarrow> Inl e
      | Inr x \<Rightarrow> (case comprehension f is of Inl e \<Rightarrow> Inl e | Inr xs \<Rightarrow> Inr (x # xs)))"

text \<open>\<open>range(k)\<close> for an integer \<open>k\<close>: empty when \<open>k \<le> 0\<close>.\<close>

definition py_range :: "int \<Rightarrow> int list" where
  "py_range k = map int [0 ..< nat k]"

text \<open>
  Lines 155-162. \<open>format\<close> is the \<open>format\<close> method of the handler, \<open>dq\<close> its deque,
  \<open>n = None\<close> the default argument.
\<close>

definition get_logs ::
  "(log_record \<Rightarrow> string) \<Rightarrow> log_record list \<Rightarrow> int option \<Rightarrow> pyexc + (string \<times> string) list"
where
  "get_logs format dq n =
     (case (case n of
              None \<Rightarrow> Inr dq
            | Some k \<Rightarrow> comprehension (\<lambda>i. deque_getitem dq (- i))
                         (py_range (min k (int (length dq)))))
      of Inl e \<Rightarrow> Inl e
       | Inr L \<Rightarrow> Inr (map (\<lambda>msg. (levelname msg, format msg)) L))"

text \<open>What the specification asks of \<open>get_logs(n)\<close>: the \<open>n\<close> most recent entries, newest first.\<close>

definition most_recent_first :: "nat \<Rightarrow> 'a list \<Rightarrow> 'a list" where
  "most_recent_first n dq = take n (rev dq)"

section \<open>Rendering integers: \<open>str\<close> and \<open>%s\<close> of an \<open>int\<close>\<close>

fun str_nat :: "nat \<Rightarrow> string" where
  "str_nat n =
     (if n < 10 then [''0123456789'' ! n]
      else str_nat (n div 10) @ [''0123456789'' ! (n mod 10)])"

declare str_nat.simps [simp del]

definition str_int :: "int \<Rightarrow> string" where
  "str_int i = (if i < 0 then CHR ''-'' # str_nat (nat (- i)) else str_nat (nat i))"

section \<open>ServicePortResolver and ServiceRegistry: \<open>ServerNode.start_services\<close>\<close>

text \<open>
  A service key is a plain name or a pair of a name and a port-spec (line 102). A
  port-spec is an integer, a string, or a tuple or list (lines 107 and 110). A service
  descriptor is a service class alone or a pair of the class and keyword arguments
  (line 118).
\<close>

datatype port_spec = PortInt int | PortStr string | PortSeq "pyval list"

datatype service_key = Name string | NamePort string port_spec

text \<open>
  A service class is code outside this file. What \<open>start_services\<close> and
  \<open>stop_services\<close> do with it: call it (\<open>cls_init\<close>, with the keyword arguments; \<open>Some e\<close>
  when the constructor raises), call \<open>listen\<close> on the instance with the address
  (\<open>cls_listen\<close>; \<open>Inr p\<close> is the port the instance is then bound to), and later call
  \<open>stop\<close> (\<open>cls_stop\<close>).
\<close>

record service_class =
  cls_name :: string
  cls_init :: "(string \<times> pyval) list \<Rightarrow> raised option"
  cls_listen :: "pyval \<times> int \<Rightarrow> raised + int"
  cls_stop :: "raised option"

datatype descriptor = Bare service_class | WithKwargs service_class "(string \<times> pyval) list"

text \<open>A live service instance: the handle stored in \<open>self.services\<close>.\<close>

record service =
  made_by :: string
  made_with :: "(string \<times> pyval) list"
  address :: "pyval \<times> int"
  svc_port :: int
  stop_raises :: "raised option"
  stopped :: bool

text \<open>
  The part of a \<open>ServerNode\<close> that the methods below read and write. \<open>services\<close> is the
  dict \<open>self.services\<close> in insertion order; \<open>warnings\<close> collects the messages given to
  \<open>warnings.warn\<close>, oldest first (a warning is taken to be recorded: no warning filter
  turns it into an exception); \<open>calls\<close> records the calls made to collaborators
  (the connection pool, \<open>close\<close>, the event loop, the HTTP server), oldest first.
  \<open>death_timeout\<close> is \<open>None\<close> when the attribute is missing or is \<open>None\<close> (both are
  falsy on line 177), else the number of seconds, here an integer.
\<close>

datatype call =
    RpcStart
  | Close int
  | Sleep int
  | HttpListen string int

record node =
  status :: string
  type_name :: string
  death_timeout :: "int option"
  services :: "(string \<times> service) list"
  warnings :: "string list"
  calls :: "call list"

text \<open>\<open>s.split(c)\<close> for a one-character separator: always at least one piece.\<close>

fun split_on :: "char \<Rightarrow> string \<Rightarrow> string list" where
  "split_on c [] = [[]]"
| "split_on c (x # xs) =
     (if x = c then [] # split_on c xs
      else (case split_on c xs of [] \<Rightarrow> [[x]] | w # ws \<Rightarrow> (x # w) # ws))"

text \<open>
  The builtin \<open>int\<close> on an element of a port-spec (line 112). \<open>int_str\<close> is the builtin on
  strings, \<open>None\<close> when it raises \<open>ValueError\<close>; it is a parameter of the model.
\<close>

fun py_int :: "(string \<Rightarrow> int option) \<Rightarrow> pyval \<Rightarrow> pyexc + int" where
  "py_int int_str (VInt i) = Inr i"
| "py_int int_str (VStr s) = (case int_str s of None \<Rightarrow> Inl (ValueError_int s) | Some i \<Rightarrow> Inr i)"

text \<open>Lines 110-116: a tuple or list port-spec gives \<open>(listen_ip, port)\<close> or raises.\<close>

fun of_sequence :: "(string \<Rightarrow> int option) \<Rightarrow> pyval list \<Rightarrow> pyexc + (pyval option \<times> int)" where
  "of_sequence int_str [h, p] =
     (case py_int int_str p of Inl e \<Rightarrow> Inl e | Inr n \<Rightarrow> Inr (Some h, n))"
| "of_sequence int_str [h] = Inr (Some h, 0)"
| "of_sequence int_str xs = Inl (ValueError_port xs)"

text \<open>
  Lines 107-116: from the port-spec to \<open>listen_ip\<close> (\<open>None\<close> when the port-spec names
  no host) and the port. A string is split on \<open>:\<close> and then treated as the list it
  became.
\<close>

fun resolve_port ::
  "(string \<Rightarrow> int option) \<Rightarrow> port_spec \<Rightarrow> pyexc + (pyval option \<times> int)" where
  "resolve_port int_str (PortInt p) = Inr (None, p)"
| "resolve_port int_str (PortStr s) = of_sequence int_str (map VStr (split_on CHR '':'' s))"
| "resolve_port int_str (PortSeq xs) = of_sequence int_str xs"

text \<open>Lines 107-110: the sequence a port-spec is read as, \<open>None\<close> for an integer.\<close>

fun as_sequence :: "port_spec \<Rightarrow> pyval list option" where
  "as_sequence (PortInt p) = None"
| "as_sequence (PortStr s) = Some (map VStr (split_on CHR '':'' s))"
| "as_sequence (PortSeq xs) = Some xs"

text \<open>Lines 101-116: from the service key to the name, \<open>listen_ip\<close> and the port.\<close>

fun resolve :: "(string \<Rightarrow> int option) \<Rightarrow> service_key \<Rightarrow> pyexc + (string \<times> pyval option \<times> int)" where
  "resolve int_str (Name k) = Inr (k, None, 0)"
| "resolve int_str (NamePort k port) =
     (case resolve_port int_str port of Inl e \<Rightarrow> Inl e | Inr (listen_ip, p) \<Rightarrow> Inr (k, listen_ip, p))"

text \<open>Lines 97-98.\<close>

definition rewrite_default :: "string \<Rightarrow> string" where
  "rewrite_default default_listen_ip =
     (if default_listen_ip = ''0.0.0.0'' then [] else default_listen_ip)"

text \<open>Line 126: the host handed to \<open>listen\<close>.\<close>

fun listen_host :: "pyval option \<Rightarrow> string \<Rightarrow> pyval" where
  "listen_host (Some listen_ip) default_listen_ip = listen_ip"
| "listen_host None default_listen_ip = VStr default_listen_ip"

text \<open>Lines 118-121.\<close>

fun class_of :: "descriptor \<Rightarrow> service_class" where
  "class_of (Bare c) = c"
| "class_of (WithKwargs c kwargs) = c"

fun kwargs_of :: "descriptor \<Rightarrow> (string \<times> pyval) list" where
  "kwargs_of (Bare c) = []"
| "kwargs_of (WithKwargs c kwargs) = kwargs"

text \<open>Lines 124-127: construct the service and make it listen.\<close>

definition launch :: "service_class \<Rightarrow> (string \<times> pyval) list \<Rightarrow> pyval \<times> int \<Rightarrow> raised + service" where
  "launch c kwargs addr =
     (case cls_init c kwargs of
        Some e \<Rightarrow> Inl e
      | None \<Rightarrow>
          (case cls_listen c addr of
             Inl e \<Rightarrow> Inl e
           | Inr p \<Rightarrow> Inr \<lparr>made_by = cls_name c, made_with = kwargs, address = addr,
                          svc_port = p, stop_raises = cls_stop c, stopped = False\<rparr>))"

text \<open>Lines 130-135: the text of the warning.\<close>

definition launch_warning :: "string \<Rightarrow> int \<Rightarrow> raised \<Rightarrow> string" where
  "launch_warning k p e =
     [CHR 0x0A] @ ''Could not launch service '' @ [CHR 0x27] @ k @ [CHR 0x27] @ '' on port ''
       @ str_int p @ ''. '' @ ''Got the following message:'' @ [CHR 0x0A, CHR 0x0A] @ str e"

text \<open>
  One turn of the loop of lines 100-135. The result is the exception that leaves the
  loop, if any, and the node as it is then.
\<close>

definition start_service ::
  "(string \<Rightarrow> int option) \<Rightarrow> string \<Rightarrow> service_key \<times> descriptor \<Rightarrow> node \<Rightarrow> pyexc option \<times> node"
where
  "start_service int_str default_listen_ip kv s =
     (case resolve int_str (fst kv) of
        Inl e \<Rightarrow> (Some e, s)
      | Inr (k, listen_ip, p) \<Rightarrow>
          (case launch (class_of (snd kv)) (kwargs_of (snd kv))
                  (listen_host listen_ip default_listen_ip, p) of
             Inr service \<Rightarrow> (None, s\<lparr>services := AList.update k service (services s)\<rparr>)
           | Inl e \<Rightarrow>
               if from_Exception e
               then (None, s\<lparr>warnings := warnings s @ [launch_warning k p e]\<rparr>)
               else (Some (Collaborator e), s)))"

fun service_loop ::
  "(string \<Rightarrow> int option) \<Rightarrow> string \<Rightarrow> (service_key \<times> descriptor) list \<Rightarrow> node \<Rightarrow> pyexc option \<times> node"
where
  "service_loop int_str ip [] s = (None, s)"
| "service_loop int_str ip (kv # rest) s =
     (case start_service int_str ip kv s of
        (Some e, s') \<Rightarrow> (Some e, s')
      | (None, s') \<Rightarrow> service_loop int_str ip rest s')"

text \<open>Lines 96-135. \<open>service_specs\<close> is \<open>self.service_specs.items()\<close>, in order.\<close>

definition start_services ::
  "(string \<Rightarrow> int option) \<Rightarrow> string \<Rightarrow> (service_key \<times> descriptor) list \<Rightarrow> node \<Rightarrow> pyexc option \<times> node"
where
  "start_services int_str default_listen_ip service_specs s =
     service_loop int_str (rewrite_default default_listen_ip) service_specs s"

text \<open>
  Lines 137-139. \<open>stop\<close> is called on the handles in order; a \<open>stop\<close> that raises ends
  the loop. No entry is taken out of \<open>self.services\<close>.
\<close>

fun stop_loop :: "(string \<times> service) list \<Rightarrow> pyexc option \<times> (string \<times> service) list" where
  "stop_loop [] = (None, [])"
| "stop_loop ((k, h) # rest) =
     (case stop_raises h of
        Some e \<Rightarrow> (Some (Collaborator e), (k, h) # rest)
      | None \<Rightarrow> (case stop_loop rest of (r, rest') \<Rightarrow> (r, (k, h\<lparr>stopped := True\<rparr>) # rest')))"

definition stop_services :: "node \<Rightarrow> pyexc option \<times> node" where
  "stop_services s = (case stop_loop (services s) of (r, hs) \<Rightarrow> (r, s\<lparr>services := hs\<rparr>))"

text \<open>Lines 141-143.\<close>

definition service_ports :: "node \<Rightarrow> (string \<times> int) list" where
  "service_ports s = map (\<lambda>(k, v). (k, svc_port v)) (services s)"

section \<open>NodeLifecycle: \<open>Node.start\<close>, \<open>ServerNode.start\<close> and \<open>ServerNode.__await__\<close>\<close>

text \<open>
  The connection pool is code outside this file. \<open>Finishes d r\<close>: awaiting
  \<open>self.rpc.start()\<close> ends after \<open>d\<close> units of time, normally (\<open>r = None\<close>) or by
  raising; \<open>Never\<close>: it does not end. \<open>close\<close> is outside this file as well:
  \<open>close_raises\<close> below is \<open>Some e\<close> when \<open>await self.close(timeout=1)\<close> raises \<open>e\<close>.
\<close>

datatype run = Finishes nat "raised option" | Never

text \<open>
  What \<open>await node\<close> comes to: the value returned (the node itself, or \<open>None\<close>), an
  exception, or no return at all.
\<close>

datatype outcome = ReturnsSelf | ReturnsNone | Raise pyexc | Blocked

text \<open>
  Lines 46-47 and 193-196, the body of the coroutine \<open>self.start()\<close>: it calls and awaits
  the pool's start, which is recorded, and then returns \<open>self\<close>; its run is the pool's.
  Calling \<open>self.start()\<close> on line 175 only makes the coroutine object: a \<open>coroutine\<close> is
  the body still to be run, on the node as it is when the run begins.
\<close>

type_synonym coroutine = "node \<Rightarrow> run \<times> node"

definition start :: "run \<Rightarrow> coroutine" where
  "start rpc s = (rpc, s\<lparr>calls := calls s @ [RpcStart]\<rparr>)"

text \<open>Awaiting the coroutine itself (line 191 when there is no death timeout).\<close>

fun ending :: "run \<Rightarrow> outcome" where
  "ending (Finishes d None) = ReturnsSelf"
| "ending (Finishes d (Some e)) = Raise (Collaborator e)"
| "ending Never = Blocked"

definition await_directly :: "coroutine \<Rightarrow> node \<Rightarrow> outcome \<times> node" where
  "await_directly future s = (case future s of (r, s') \<Rightarrow> (ending r, s'))"

text \<open>
  \<open>asyncio.wait_for(future, timeout)\<close>. With \<open>timeout \<le> 0\<close> the coroutine is wrapped in a
  task and cancelled before its body has run, and \<open>asyncio.TimeoutError\<close> is raised. With
  \<open>timeout > 0\<close> the timer is set, the body runs, and the result is the coroutine's own
  end when that comes before the timer fires, else \<open>asyncio.TimeoutError\<close>; an end that
  comes exactly when the time is up is too late. \<open>None\<close> is a normal return.
\<close>

fun completes_within :: "run \<Rightarrow> int \<Rightarrow> bool" where
  "completes_within (Finishes d r) timeout = (int d < timeout)"
| "completes_within Never timeout = False"

fun in_time :: "run \<Rightarrow> pyexc option" where
  "in_time (Finishes d r) = map_option Collaborator r"
| "in_time Never = Some AsyncioTimeoutError"

definition asyncio_wait_for :: "coroutine \<Rightarrow> int \<Rightarrow> node \<Rightarrow> pyexc option \<times> node" where
  "asyncio_wait_for future timeout s =
     (if timeout \<le> 0 then (Some AsyncioTimeoutError, s)
      else (case future s of
              (r, s') \<Rightarrow>
                (if completes_within r timeout then in_time r else Some AsyncioTimeoutError, s')))"

text \<open>Lines 184-188: the message of the error.\<close>

definition failed_to_start :: "string \<Rightarrow> int \<Rightarrow> string" where
  "failed_to_start name timeout = name @ '' failed to start in '' @ str_int timeout @ '' seconds''"

text \<open>
  Lines 179-188, the inner coroutine \<open>wait_for\<close>. It has no \<open>return\<close>, so a start that
  ends in time makes it return \<open>None\<close>.
\<close>

definition wait_for :: "raised option \<Rightarrow> coroutine \<Rightarrow> int \<Rightarrow> node \<Rightarrow> outcome \<times> node" where
  "wait_for close_raises future timeout s =
     (case asyncio_wait_for future timeout s of
        (None, s') \<Rightarrow> (ReturnsNone, s')
      | (Some e, s') \<Rightarrow>
          if is_Exception e
          then (case close_raises of
                  Some c \<Rightarrow> (Raise (Collaborator c), s'\<lparr>calls := calls s' @ [Close 1]\<rparr>)
                | None \<Rightarrow> (Raise (TimeoutError (failed_to_start (type_name s') timeout)),
                           s'\<lparr>calls := calls s' @ [Close 1]\<rparr>))
          else (Raise e, s'))"

text \<open>
  Lines 171-191. \<open>getattr(self, "death_timeout", 0)\<close> is falsy when the attribute is
  missing, \<open>None\<close> or zero.
\<close>

definition await_node :: "run \<Rightarrow> raised option \<Rightarrow> node \<Rightarrow> outcome \<times> node" where
  "await_node rpc close_raises s =
     (if status s = ''running'' then (ReturnsNone, s\<lparr>calls := calls s @ [Sleep 0]\<rparr>)
      else
        (let future = start rpc;
             timeout = (case death_timeout s of None \<Rightarrow> 0 | Some t \<Rightarrow> t)
         in if timeout \<noteq> 0 then wait_for close_raises future timeout s
            else await_directly future s))"

section \<open>DashboardLauncher: \<open>ServerNode.start_http_server\<close>\<close>

text \<open>
  The argument \<open>dashboard_address\<close> and its truth value (lines 221 and 239); the dict
  that \<open>clean_dashboard_address\<close> returns; the attribute \<open>self._start_address\<close>; what
  \<open>get_address_host\<close> does (\<open>ValueError\<close> is the one exception line 228 ignores).
\<close>

datatype dash_addr = DashNone | DashInt int | DashStr string | DashSeq "pyval list"

fun truthy :: "dash_addr \<Rightarrow> bool" where
  "truthy DashNone = False"
| "truthy (DashInt i) = (i \<noteq> 0)"
| "truthy (DashStr s) = (s \<noteq> [])"
| "truthy (DashSeq xs) = (xs \<noteq> [])"

record http_address =
  addr_host :: string
  addr_port :: int

datatype start_address = StartNone | StartStr string | StartSeq "string list"

datatype host_lookup = Host string | HostValueError | HostRaises raised

text \<open>
  What \<open>start_http_server\<close> takes from outside this file: \<open>clean_dashboard_address\<close> and
  \<open>get_address_host\<close> of the package, the configured certificate path and whether
  building the TLS context raises (lines 206-218), and the \<open>HTTPServer\<close> class, whose
  \<open>cls_listen\<close> gives the port of the bound socket that \<open>get_tcp_server_address\<close> reads
  on line 236.
\<close>

record http_env =
  clean_dashboard_address :: "dash_addr \<Rightarrow> pyexc + http_address"
  get_address_host :: "string \<Rightarrow> host_lookup"
  tls_cert :: "string option"
  tls_load :: "raised option"
  http_server_class :: service_class
  start_address :: start_address

text \<open>Lines 209-220: the TLS context, then the server object.\<close>

fun configured :: "string option \<Rightarrow> bool" where
  "configured None = False"
| "configured (Some path) = (path \<noteq> [])"

definition make_server :: "http_env \<Rightarrow> pyexc option" where
  "make_server env =
     (case (if configured (tls_cert env) then tls_load env else None) of
        Some e \<Rightarrow> Some (Collaborator e)
      | None \<Rightarrow> map_option Collaborator (cls_init (http_server_class env) []))"

text \<open>Lines 224-226: \<open>address[0]\<close> of a list or tuple, which raises on an empty one.\<close>

fun first_start_address :: "start_address \<Rightarrow> pyexc + string option" where
  "first_start_address StartNone = Inr None"
| "first_start_address (StartStr a) = Inr (Some a)"
| "first_start_address (StartSeq []) = Inl IndexError"
| "first_start_address (StartSeq (a # as)) = Inr (Some a)"

text \<open>Lines 221-229: the address to bind.\<close>

definition resolve_http_address :: "http_env \<Rightarrow> dash_addr \<Rightarrow> int \<Rightarrow> pyexc + http_address" where
  "resolve_http_address env dashboard_address default_port =
     (case clean_dashboard_address env
             (if truthy dashboard_address then dashboard_address else DashInt default_port) of
        Inl e \<Rightarrow> Inl e
      | Inr a \<Rightarrow>
          if addr_host a \<noteq> [] then Inr a
          else (case first_start_address (start_address env) of
                  Inl e \<Rightarrow> Inl e
                | Inr None \<Rightarrow> Inr a
                | Inr (Some x) \<Rightarrow>
                    if x = [] then Inr a
                    else (case get_address_host env x of
                            Host h \<Rightarrow> Inr (a\<lparr>addr_host := h\<rparr>)
                          | HostValueError \<Rightarrow> Inr a
                          | HostRaises e \<Rightarrow> Inl (Collaborator e))))"

text \<open>
  Lines 230-235: the bind and its one retry. The result is \<open>changed_port\<close> and the port
  of the bound socket, or the exception that leaves the function; every call of
  \<open>listen\<close> is recorded.
\<close>

definition bind :: "service_class \<Rightarrow> http_address \<Rightarrow> node \<Rightarrow> (pyexc + bool \<times> int) \<times> node" where
  "bind srv a s =
     (case cls_listen srv (VStr (addr_host a), addr_port a) of
        Inr q \<Rightarrow> (Inr (False, q), s\<lparr>calls := calls s @ [HttpListen (addr_host a) (addr_port a)]\<rparr>)
      | Inl e \<Rightarrow>
          if from_Exception e
          then (case cls_listen srv (VStr (addr_host a), 0) of
                  Inr q \<Rightarrow>
                    (Inr (True, q),
                     s\<lparr>calls := calls s @ [HttpListen (addr_host a) (addr_port a),
                                            HttpListen (addr_host a) 0]\<rparr>)
                | Inl e' \<Rightarrow>
                    (Inl (Collaborator e'),
                     s\<lparr>calls := calls s @ [HttpListen (addr_host a) (addr_port a),
                                            HttpListen (addr_host a) 0]\<rparr>))
          else (Inl (Collaborator e),
                s\<lparr>calls := calls s @ [HttpListen (addr_host a) (addr_port a)]\<rparr>))"

text \<open>Lines 240-246: the text of the warning.\<close>

definition port_warning :: "int \<Rightarrow> int \<Rightarrow> string" where
  "port_warning requested used =
     ''Port '' @ str_int requested @ '' is already in use.'' @ [CHR 0x0A]
       @ ''Perhaps you already have a cluster running?'' @ [CHR 0x0A]
       @ ''Hosting the HTTP server on port '' @ str_int used @ '' instead''"

text \<open>Lines 230-246: bind, store the port, register under \<open>dashboard\<close>, warn.\<close>

definition bind_and_register ::
  "service_class \<Rightarrow> dash_addr \<Rightarrow> http_address \<Rightarrow> node \<Rightarrow> pyexc option \<times> node" where
  "bind_and_register srv dashboard_address a s =
     (case bind srv a s of
        (Inl e, s') \<Rightarrow> (Some e, s')
      | (Inr (changed_port, q), s') \<Rightarrow>
          (None,
           s'\<lparr>services :=
                 AList.update ''dashboard''
                   \<lparr>made_by = cls_name srv, made_with = [],
                    address = (VStr (addr_host a), if changed_port then 0 else addr_port a),
                    svc_port = q, stop_raises = cls_stop srv, stopped = False\<rparr>
                   (services s'),
               warnings :=
                 (if changed_port \<and> truthy dashboard_address
                  then warnings s' @ [port_warning (addr_port a) q]
                  else warnings s')\<rparr>))"

text \<open>Lines 198-246.\<close>

definition start_http_server :: "http_env \<Rightarrow> dash_addr \<Rightarrow> int \<Rightarrow> node \<Rightarrow> pyexc option \<times> node" where
  "start_http_server env dashboard_address default_port s =
     (case make_server env of
        Some e \<Rightarrow> (Some e, s)
      | None \<Rightarrow>
          (case resolve_http_address env dashboard_address default_port of
             Inl e \<Rightarrow> (Some e, s)
           | Inr a \<Rightarrow> bind_and_register (http_server_class env) dashboard_address a s))"

section \<open>Example inputs\<close>

text \<open>
  A service class whose constructor and \<open>listen\<close> succeed (asked for port 0, the
  instance ends up on port 49152), and one whose constructor raises an \<open>Exception\<close>.
\<close>

definition always_up :: "string \<Rightarrow> service_class" where
  "always_up name =
     \<lparr>cls_name = name, cls_init = (\<lambda>kwargs. None),
      cls_listen = (\<lambda>addr. Inr (if snd addr = 0 then 49152 else snd addr)), cls_stop = None\<rparr>"

definition fails_to_construct :: "string \<Rightarrow> string \<Rightarrow> service_class" where
  "fails_to_construct name msg =
     \<lparr>cls_name = name, cls_init = (\<lambda>kwargs. Some (Raised True msg)),
      cls_listen = (\<lambda>addr. Inr (snd addr)), cls_stop = None\<rparr>"

text \<open>A node of type \<open>Worker\<close> that has started nothing yet.\<close>

definition fresh_node :: node where
  "fresh_node = \<lparr>status = ''created'', type_name = ''Worker'', death_timeout = None,
                 services = [], warnings = [], calls = []\<rparr>"

text \<open>The builtin \<open>int\<close> on strings, as far as the examples call it.\<close>

definition int_8787 :: "string \<Rightarrow> int option" where
  "int_8787 s = (if s = ''8787'' then Some 8787 else None)"

text \<open>
  A class for which one port is taken: \<open>listen\<close> on that port raises \<open>OSError\<close>,
  \<open>listen\<close> on port 0 binds port 49152; and classes whose constructor or whose \<open>listen\<close>
  is interrupted by \<open>KeyboardInterrupt\<close>, which does not derive from \<open>Exception\<close>.
\<close>

definition port_taken :: "string \<Rightarrow> int \<Rightarrow> service_class" where
  "port_taken name busy =
     \<lparr>cls_name = name, cls_init = (\<lambda>kwargs. None),
      cls_listen = (\<lambda>addr. if snd addr = busy then Inl (Raised True ''Address already in use'')
                            else Inr (if snd addr = 0 then 49152 else snd addr)),
      cls_stop = None\<rparr>"

definition interrupted_constructor :: "string \<Rightarrow> service_class" where
  "interrupted_constructor name =
     \<lparr>cls_name = name, cls_init = (\<lambda>kwargs. Some (Raised False ''KeyboardInterrupt'')),
      cls_listen = (\<lambda>addr. Inr (snd addr)), cls_stop = None\<rparr>"

definition interrupted_listen :: "string \<Rightarrow> service_class" where
  "interrupted_listen name =
     \<lparr>cls_name = name, cls_init = (\<lambda>kwargs. None),
      cls_listen = (\<lambda>addr. Inl (Raised False ''KeyboardInterrupt'')), cls_stop = None\<rparr>"

text \<open>
  The surroundings of \<open>start_http_server\<close> for a given \<open>HTTPServer\<close> class: no TLS
  certificate, no \<open>_start_address\<close>, and \<open>clean_dashboard_address\<close> as it is on an
  integer (the empty host and that port).
\<close>

definition dashboard_env :: "service_class \<Rightarrow> http_env" where
  "dashboard_env server =
     \<lparr>clean_dashboard_address =
        (\<lambda>d. case d of
                DashInt p \<Rightarrow> Inr \<lparr>addr_host = [], addr_port = p\<rparr>
              | _ \<Rightarrow> Inl (Collaborator (Raised True ''not an integer''))),
      get_address_host = (\<lambda>a. HostValueError),
      tls_cert = None, tls_load = None,
      http_server_class = server,
      start_address = StartNone\<rparr>"

section \<open>Properties of \<open>get_logs\<close>\<close>

lemma comprehension_total:
  "(\<And>i. i \<in> set is \<Longrightarrow> f i = Inr (g i)) \<Longrightarrow> comprehension f is = Inr (map g is)"
  by (induction "is") simp_all

lemma get_logs_None: "get_logs format dq None = Inr (map (\<lambda>m. (levelname m, format m)) dq)"
  by (simp add: get_logs_def)

lemma deque_getitem_neg_in_range:
  assumes "i \<in> set (py_range (min k (int (length dq))))"
  shows "deque_getitem dq (- i) =
           Inr (if i = 0 then dq ! 0 else dq ! (length dq - nat i))"
proof -
  from assms have b: "0 \<le> i" "i < int (length dq)"
    by (auto simp: py_range_def)
  show ?thesis
  proof (cases "i = 0")
    case True
    with b show ?thesis by (simp add: deque_getitem_def)
  next
    case False
    with b have "nat (int (length dq) + - i) = length dq - nat i" by linarith
    with False b show ?thesis by (simp add: deque_getitem_def)
  qed
qed

lemma get_logs_never_raises:
  "\<exists>L. get_logs format dq n = Inr L \<and> (case n of None \<Rightarrow> True | Some k \<Rightarrow> int (length L) \<le> max 0 k)"
proof (cases n)
  case None
  then show ?thesis by (simp add: get_logs_None)
next
  case (Some k)
  have "comprehension (\<lambda>i. deque_getitem dq (- i)) (py_range (min k (int (length dq))))
          = Inr (map (\<lambda>i. if i = 0 then dq ! 0 else dq ! (length dq - nat i))
                   (py_range (min k (int (length dq)))))"
    by (rule comprehension_total) (rule deque_getitem_neg_in_range)
  with Some show ?thesis by (auto simp: get_logs_def py_range_def)
qed

text \<open>
  What \<open>get_logs(k)\<close> returns for \<open>k > 0\<close> on a buffer that is not empty: the oldest
  entry first, then the newest entries, newest first, one fewer than asked for.
\<close>

lemma newest_first_by_index:
  assumes "m \<le> length dq"
  shows "map (\<lambda>i. dq ! (length dq - i)) [1 ..< m] = take (m - 1) (rev dq)"
proof (rule nth_equalityI)
  show "length (map (\<lambda>i. dq ! (length dq - i)) [1 ..< m]) = length (take (m - 1) (rev dq))"
    using assms by simp
next
  fix j
  assume "j < length (map (\<lambda>i. dq ! (length dq - i)) [1 ..< m])"
  then have j: "j < m - 1" by simp
  with assms have "rev dq ! j = dq ! (length dq - Suc j)"
    by (simp add: rev_nth)
  with j assms show "map (\<lambda>i. dq ! (length dq - i)) [1 ..< m] ! j = take (m - 1) (rev dq) ! j"
    by simp
qed

lemma get_logs_bounded_shape:
  assumes "0 < k" and "dq \<noteq> []"
  shows "get_logs format dq (Some k) =
           Inr (map (\<lambda>m. (levelname m, format m))
                  (hd dq # take (nat (min k (int (length dq))) - 1) (rev dq)))"
proof -
  define m where "m = nat (min k (int (length dq)))"
  have m: "0 < m" "m \<le> length dq"
    using assms by (auto simp: m_def)
  have range: "py_range (min k (int (length dq))) = 0 # map int [1 ..< m]"
    using m by (simp add: py_range_def m_def upt_conv_Cons)
  have "comprehension (\<lambda>i. deque_getitem dq (- i)) (py_range (min k (int (length dq))))
          = Inr (map (\<lambda>i. if i = 0 then dq ! 0 else dq ! (length dq - nat i))
                   (py_range (min k (int (length dq)))))"
    by (rule comprehension_total) (rule deque_getitem_neg_in_range)
  also have "map (\<lambda>i. if i = 0 then dq ! 0 else dq ! (length dq - nat i))
                   (py_range (min k (int (length dq))))
           = dq ! 0 # map (\<lambda>i. dq ! (length dq - i)) [1 ..< m]"
    by (simp add: range comp_def)
  also have "\<dots> = hd dq # take (m - 1) (rev dq)"
    using newest_first_by_index [OF m(2)] assms by (simp add: hd_conv_nth)
  finally show ?thesis
    by (simp add: get_logs_def m_def)
qed

text \<open>
  C1. \<open>get_logs(None)\<close> returns the buffer oldest first, but \<open>get_logs(2)\<close> on a buffer
  that received three entries does not return the two most recent entries newest first:
  the comprehension starts at \<open>L[-0]\<close>, which is the oldest entry \<open>L[0]\<close>, so the result
  is the oldest entry followed by the newest one.
\<close>

theorem get_logs_two_of_three:
  "get_logs message
     [\<lparr>levelname = ''INFO'', message = ''a''\<rparr>,
      \<lparr>levelname = ''INFO'', message = ''b''\<rparr>,
      \<lparr>levelname = ''ERROR'', message = ''c''\<rparr>] (Some 2)
   = Inr [(''INFO'', ''a''), (''ERROR'', ''c'')]
   \<and> map (\<lambda>m. (levelname m, message m)) (most_recent_first 2
     [\<lparr>levelname = ''INFO'', message = ''a''\<rparr>,
      \<lparr>levelname = ''INFO'', message = ''b''\<rparr>,
      \<lparr>levelname = ''ERROR'', message = ''c''\<rparr>])
   = [(''ERROR'', ''c''), (''INFO'', ''b'')]"
  by (simp add: get_logs_def py_range_def deque_getitem_def most_recent_first_def
      upt_conv_Cons)

section \<open>Properties of \<open>start_services\<close> and \<open>stop_services\<close>\<close>

lemma service_loop_append:
  "service_loop f ip (pre @ post) s =
     (case service_loop f ip pre s of (Some e, s') \<Rightarrow> (Some e, s') | (None, s') \<Rightarrow> service_loop f ip post s')"
  by (induction pre arbitrary: s) (auto split: prod.splits option.splits)

lemma of_sequence_malformed:
  "length xs \<noteq> 1 \<Longrightarrow> length xs \<noteq> 2 \<Longrightarrow> of_sequence f xs = Inl (ValueError_port xs)"
  by (cases "(f, xs)" rule: of_sequence.cases) auto

lemma resolve_port_sequence:
  "as_sequence port = Some xs \<Longrightarrow> resolve_port f port = of_sequence f xs"
  by (cases port) auto

text \<open>
  C2 (as amended). A port-spec that is read as a sequence of length other than 1 or 2
  makes \<open>start_services\<close> raise \<open>ValueError\<close> with that sequence: the raise of line 116
  is outside the \<open>try\<close> of line 123, so it leaves \<open>start_services\<close>. The services declared
  before the offending one have been started, the ones declared after it are not attempted.
\<close>

theorem malformed_port_spec_leaves_start_services:
  assumes seq: "as_sequence port = Some xs"
    and len: "length xs \<noteq> 1" "length xs \<noteq> 2"
    and pre: "start_services f ip pre s = (None, s')"
  shows "start_services f ip (pre @ (NamePort k port, v) # post) s = (Some (ValueError_port xs), s')"
proof -
  have "resolve f (NamePort k port) = Inl (ValueError_port xs)"
    using seq len by (simp add: resolve_port_sequence of_sequence_malformed)
  then have "start_service f (rewrite_default ip) (NamePort k port, v) s' = (Some (ValueError_port xs), s')"
    by (simp add: start_service_def)
  with pre show ?thesis
    by (simp add: start_services_def service_loop_append)
qed

lemma metrics_up:
  "start_services f ''0.0.0.0'' [(Name ''metrics'', Bare (always_up ''Metrics''))] fresh_node =
     (None, fresh_node\<lparr>services :=
        [(''metrics'', \<lparr>made_by = ''Metrics'', made_with = [], address = (VStr [], 0),
                        svc_port = 49152, stop_raises = None, stopped = False\<rparr>)]\<rparr>)"
  by (simp add: start_services_def start_service_def launch_def rewrite_default_def
      always_up_def fresh_node_def)

theorem malformed_port_spec_witness:
  "start_services int_8787 ''0.0.0.0''
     [(Name ''metrics'', Bare (always_up ''Metrics'')),
      (NamePort ''web'' (PortStr ''h:1:2''), Bare (always_up ''Web'')),
      (Name ''late'', Bare (always_up ''Late''))] fresh_node
   = (Some (ValueError_port [VStr ''h'', VStr ''1'', VStr ''2'']),
      fresh_node\<lparr>services :=
        [(''metrics'', \<lparr>made_by = ''Metrics'', made_with = [], address = (VStr [], 0),
                        svc_port = 49152, stop_raises = None, stopped = False\<rparr>)]\<rparr>)"
proof -
  have seq: "as_sequence (PortStr ''h:1:2'') = Some [VStr ''h'', VStr ''1'', VStr ''2'']"
    by simp
  show ?thesis
    using malformed_port_spec_leaves_start_services
        [where f = int_8787 and k = "''web''" and v = "Bare (always_up ''Web'')"
          and post = "[(Name ''late'', Bare (always_up ''Late''))]", OF seq _ _ metrics_up]
    by simp
qed

text \<open>
  C2 as stated fails: with a three-element port-spec on the first of two services, the
  error leaves \<open>start_services\<close> and the second service is never started.
\<close>

theorem malformed_port_spec_counterexample:
  "start_services int_8787 ''0.0.0.0''
     [(NamePort ''web'' (PortSeq [VStr ''h'', VInt 1, VInt 2]), Bare (always_up ''Web'')),
      (Name ''metrics'', Bare (always_up ''Metrics''))] fresh_node
   = (Some (ValueError_port [VStr ''h'', VInt 1, VInt 2]), fresh_node)"
  by (simp add: start_services_def start_service_def)



text \<open>
  C5 (as amended). A service whose construction or whose \<open>listen\<close> raises an exception
  deriving from \<open>Exception\<close> costs \<open>start_services\<close> one warning, whose text names the
  service key and the port, and the loop goes on with the remaining services; a service
  that starts is stored in the registry under its key; so with two entries of which the
  first raises on construction, the handle of the second is made and stored. An
  exception that does not derive from \<open>Exception\<close> is not caught: it leaves
  \<open>start_services\<close>, and the remaining services are not attempted.
\<close>

theorem failing_service_becomes_warning:
  assumes "resolve f key = Inr (k, listen_ip, q)"
  shows
    "(cls_init (class_of d) (kwargs_of d) = Some e \<and> from_Exception e
      \<longrightarrow> start_services f ip ((key, d) # rest) s
            = start_services f ip rest
                (s\<lparr>warnings := warnings s @
                   [[CHR 0x0A] @ ''Could not launch service '' @ [CHR 0x27] @ k @ [CHR 0x27]
                      @ '' on port '' @ str_int q @ ''. Got the following message:''
                      @ [CHR 0x0A, CHR 0x0A] @ str e]\<rparr>))
     \<and> (cls_init (class_of d) (kwargs_of d) = None
        \<and> cls_listen (class_of d) (listen_host listen_ip (rewrite_default ip), q) = Inl e
        \<and> from_Exception e
      \<longrightarrow> start_services f ip ((key, d) # rest) s
            = start_services f ip rest
                (s\<lparr>warnings := warnings s @
                   [[CHR 0x0A] @ ''Could not launch service '' @ [CHR 0x27] @ k @ [CHR 0x27]
                      @ '' on port '' @ str_int q @ ''. Got the following message:''
                      @ [CHR 0x0A, CHR 0x0A] @ str e]\<rparr>))
     \<and> (cls_init (class_of d) (kwargs_of d) = None
        \<and> cls_listen (class_of d) (listen_host listen_ip (rewrite_default ip), q) = Inr bound
      \<longrightarrow> start_services f ip ((key, d) # rest) s
            = start_services f ip rest
                (s\<lparr>services := AList.update k
                     \<lparr>made_by = cls_name (class_of d), made_with = kwargs_of d,
                      address = (listen_host listen_ip (rewrite_default ip), q),
                      svc_port = bound, stop_raises = cls_stop (class_of d),
                      stopped = False\<rparr>
                     (services s)\<rparr>))
     \<and> ((cls_init (class_of d) (kwargs_of d) = Some e
          \<or> cls_init (class_of d) (kwargs_of d) = None
             \<and> cls_listen (class_of d) (listen_host listen_ip (rewrite_default ip), q) = Inl e)
        \<and> \<not> from_Exception e
      \<longrightarrow> start_services f ip ((key, d) # rest) s = (Some (Collaborator e), s))
     \<and> (cls_init (class_of d) (kwargs_of d) = Some e \<and> from_Exception e
        \<and> resolve f key' = Inr (k', listen_ip', q')
        \<and> cls_init (class_of d') (kwargs_of d') = None
        \<and> cls_listen (class_of d') (listen_host listen_ip' (rewrite_default ip), q') = Inr bound'
      \<longrightarrow> start_services f ip [(key, d), (key', d')] s
            = (None,
               s\<lparr>warnings := warnings s @
                   [[CHR 0x0A] @ ''Could not launch service '' @ [CHR 0x27] @ k @ [CHR 0x27]
                      @ '' on port '' @ str_int q @ ''. Got the following message:''
                      @ [CHR 0x0A, CHR 0x0A] @ str e],
                 services := AList.update k'
                     \<lparr>made_by = cls_name (class_of d'), made_with = kwargs_of d',
                      address = (listen_host listen_ip' (rewrite_default ip), q'),
                      svc_port = bound', stop_raises = cls_stop (class_of d'),
                      stopped = False\<rparr>
                     (services s)\<rparr>))"
  using assms
  by (auto simp add: start_services_def start_service_def launch_def launch_warning_def)

lemma start_services_none: "start_services f ip [] s = (None, s)"
  by (simp add: start_services_def)

lemma str_int_8787: "str_int 8787 = ''8787''"
  by (simp add: str_int_def str_nat.simps)

theorem failing_service_witness:
  "start_services int_8787 ''127.0.0.1''
     [(NamePort ''web'' (PortStr ''example.org:8787''), Bare (fails_to_construct ''Web'' ''boom'')),
      (Name ''metrics'', WithKwargs (always_up ''Metrics'') [(''prefix'', VStr ''/m'')])] fresh_node
   = (None, fresh_node
        \<lparr>warnings := [[CHR 0x0A] @ ''Could not launch service '' @ [CHR 0x27] @ ''web'' @ [CHR 0x27]
                       @ '' on port 8787. Got the following message:'' @ [CHR 0x0A, CHR 0x0A] @ ''boom''],
         services := [(''metrics'',
            \<lparr>made_by = ''Metrics'', made_with = [(''prefix'', VStr ''/m'')],
             address = (VStr ''127.0.0.1'', 0), svc_port = 49152, stop_raises = None,
             stopped = False\<rparr>)]\<rparr>)
   \<and> start_services int_8787 ''0.0.0.0''
       [(NamePort ''web'' (PortInt 8787), Bare (port_taken ''Web'' 8787)),
        (NamePort ''api'' (PortSeq [VStr ''example.org'', VInt 80]), Bare (always_up ''Api''))]
       fresh_node
   = (None, fresh_node
        \<lparr>warnings := [[CHR 0x0A] @ ''Could not launch service '' @ [CHR 0x27] @ ''web'' @ [CHR 0x27]
                       @ '' on port 8787. Got the following message:'' @ [CHR 0x0A, CHR 0x0A]
                       @ ''Address already in use''],
         services := [(''api'',
            \<lparr>made_by = ''Api'', made_with = [], address = (VStr ''example.org'', 80),
             svc_port = 80, stop_raises = None, stopped = False\<rparr>)]\<rparr>)
   \<and> start_services int_8787 ''0.0.0.0''
       [(Name ''web'', Bare (interrupted_listen ''Web'')),
        (Name ''metrics'', Bare (always_up ''Metrics''))]
       fresh_node
   = (Some (Collaborator (Raised False ''KeyboardInterrupt'')), fresh_node)"
proof -
  have web: "resolve int_8787 (NamePort ''web'' (PortStr ''example.org:8787''))
              = Inr (''web'', Some (VStr ''example.org''), 8787)"
    by (simp add: int_8787_def)
  have first: "start_services int_8787 ''127.0.0.1''
     [(NamePort ''web'' (PortStr ''example.org:8787''), Bare (fails_to_construct ''Web'' ''boom'')),
      (Name ''metrics'', WithKwargs (always_up ''Metrics'') [(''prefix'', VStr ''/m'')])] fresh_node
   = (None, fresh_node
        \<lparr>warnings := [[CHR 0x0A] @ ''Could not launch service '' @ [CHR 0x27] @ ''web'' @ [CHR 0x27]
                       @ '' on port 8787. Got the following message:'' @ [CHR 0x0A, CHR 0x0A] @ ''boom''],
         services := [(''metrics'',
            \<lparr>made_by = ''Metrics'', made_with = [(''prefix'', VStr ''/m'')],
             address = (VStr ''127.0.0.1'', 0), svc_port = 49152, stop_raises = None,
             stopped = False\<rparr>)]\<rparr>)"
    using failing_service_becomes_warning [OF web,
        where d = "Bare (fails_to_construct ''Web'' ''boom'')" and e = "Raised True ''boom''"
        and key' = "Name ''metrics''" and k' = "''metrics''" and listen_ip' = None and q' = 0
        and d' = "WithKwargs (always_up ''Metrics'') [(''prefix'', VStr ''/m'')]"
        and ip = "''127.0.0.1''" and s = fresh_node and rest = "[]" and bound' = 49152
        and bound = 0]
    by (simp add: fails_to_construct_def always_up_def rewrite_default_def str_int_8787
        fresh_node_def)
  have taken: "resolve int_8787 (NamePort ''web'' (PortInt 8787)) = Inr (''web'', None, 8787)"
    by simp
  have api: "resolve int_8787 (NamePort ''api'' (PortSeq [VStr ''example.org'', VInt 80]))
              = Inr (''api'', Some (VStr ''example.org''), 80)"
    by simp
  have step: "start_services int_8787 ''0.0.0.0''
       [(NamePort ''web'' (PortInt 8787), Bare (port_taken ''Web'' 8787)),
        (NamePort ''api'' (PortSeq [VStr ''example.org'', VInt 80]), Bare (always_up ''Api''))]
       fresh_node
     = start_services int_8787 ''0.0.0.0''
       [(NamePort ''api'' (PortSeq [VStr ''example.org'', VInt 80]), Bare (always_up ''Api''))]
       (fresh_node\<lparr>warnings := [[CHR 0x0A] @ ''Could not launch service '' @ [CHR 0x27]
            @ ''web'' @ [CHR 0x27] @ '' on port 8787. Got the following message:''
            @ [CHR 0x0A, CHR 0x0A] @ ''Address already in use'']\<rparr>)"
    using failing_service_becomes_warning [OF taken,
        where d = "Bare (port_taken ''Web'' 8787)" and e = "Raised True ''Address already in use''"
        and ip = "''0.0.0.0''" and s = fresh_node and bound = 0 and bound' = 0
        and key' = "Name ''none''" and k' = "''none''" and listen_ip' = None and q' = 0
        and d' = "Bare (always_up ''None'')"
        and rest = "[(NamePort ''api'' (PortSeq [VStr ''example.org'', VInt 80]),
                      Bare (always_up ''Api''))]"]
    by (simp add: port_taken_def rewrite_default_def str_int_8787 fresh_node_def)
  have second: "start_services int_8787 ''0.0.0.0''
       [(NamePort ''web'' (PortInt 8787), Bare (port_taken ''Web'' 8787)),
        (NamePort ''api'' (PortSeq [VStr ''example.org'', VInt 80]), Bare (always_up ''Api''))]
       fresh_node
   = (None, fresh_node
        \<lparr>warnings := [[CHR 0x0A] @ ''Could not launch service '' @ [CHR 0x27] @ ''web'' @ [CHR 0x27]
                       @ '' on port 8787. Got the following message:'' @ [CHR 0x0A, CHR 0x0A]
                       @ ''Address already in use''],
         services := [(''api'',
            \<lparr>made_by = ''Api'', made_with = [], address = (VStr ''example.org'', 80),
             svc_port = 80, stop_raises = None, stopped = False\<rparr>)]\<rparr>)"
    unfolding step
    using failing_service_becomes_warning [OF api,
        where d = "Bare (always_up ''Api'')" and e = "Raised True []"
        and ip = "''0.0.0.0''" and bound = 80 and bound' = 0
        and key' = "Name ''none''" and k' = "''none''" and listen_ip' = None and q' = 0
        and d' = "Bare (always_up ''None'')" and rest = "[]"
        and s = "fresh_node\<lparr>warnings := [[CHR 0x0A] @ ''Could not launch service '' @ [CHR 0x27]
            @ ''web'' @ [CHR 0x27] @ '' on port 8787. Got the following message:''
            @ [CHR 0x0A, CHR 0x0A] @ ''Address already in use'']\<rparr>"]
    by (simp add: always_up_def start_services_none fresh_node_def)
  have plain: "resolve int_8787 (Name ''web'') = Inr (''web'', None, 0)"
    by simp
  have third: "start_services int_8787 ''0.0.0.0''
       [(Name ''web'', Bare (interrupted_listen ''Web'')),
        (Name ''metrics'', Bare (always_up ''Metrics''))]
       fresh_node
   = (Some (Collaborator (Raised False ''KeyboardInterrupt'')), fresh_node)"
    using failing_service_becomes_warning [OF plain,
        where d = "Bare (interrupted_listen ''Web'')" and e = "Raised False ''KeyboardInterrupt''"
        and ip = "''0.0.0.0''" and s = fresh_node and bound = 0 and bound' = 0
        and key' = "Name ''none''" and k' = "''none''" and listen_ip' = None and q' = 0
        and d' = "Bare (always_up ''None'')"
        and rest = "[(Name ''metrics'', Bare (always_up ''Metrics''))]"]
    by (simp add: interrupted_listen_def)
  from first second third show ?thesis by simp
qed

text \<open>
  C5 as stated fails: a constructor interrupted by \<open>KeyboardInterrupt\<close>, which does not
  derive from \<open>Exception\<close>, is not turned into a warning; the exception leaves
  \<open>start_services\<close> and the second service is never started.
\<close>

theorem failing_service_counterexample:
  "start_services int_8787 ''127.0.0.1''
     [(Name ''web'', Bare (interrupted_constructor ''Web'')),
      (Name ''metrics'', Bare (always_up ''Metrics''))] fresh_node
   = (Some (Collaborator (Raised False ''KeyboardInterrupt'')), fresh_node)"
  by (simp add: start_services_def start_service_def launch_def interrupted_constructor_def)

lemma stop_loop_keys: "map fst (snd (stop_loop hs)) = map fst hs"
  by (induction hs rule: stop_loop.induct) (auto split: option.splits prod.splits)

lemma stop_loop_all:
  "list_all (\<lambda>kh. stop_raises (snd kh) = None) hs \<Longrightarrow>
     stop_loop hs = (None, map (\<lambda>kh. (fst kh, (snd kh)\<lparr>stopped := True\<rparr>)) hs)"
  by (induction hs rule: stop_loop.induct) (auto split: option.splits prod.splits)

text \<open>
  C6 (as amended). \<open>stop_services\<close> takes no entry out of the registry: the keys after
  it are the keys before it, in the same order; and when no \<open>stop\<close> raises, \<open>stop\<close> has
  been called on every registered handle, each still registered under its key.
\<close>

theorem stop_services_keeps_every_entry:
  "map fst (services (snd (stop_services s))) = map fst (services s)
   \<and> (list_all (\<lambda>kh. stop_raises (snd kh) = None) (services s) \<longrightarrow>
        stop_services s =
          (None, s\<lparr>services := map (\<lambda>kh. (fst kh, (snd kh)\<lparr>stopped := True\<rparr>)) (services s)\<rparr>))"
  using stop_loop_keys [of "services s"]
  by (auto simp add: stop_services_def stop_loop_all split: prod.splits)

text \<open>
  C6 as stated fails: after \<open>stop_services\<close> on a registry of one service, the registry
  still holds that (stopped) handle and \<open>service_ports\<close> still lists its port.
\<close>

theorem stop_services_counterexample:
  "services (snd (stop_services (fresh_node\<lparr>services :=
      [(''metrics'', \<lparr>made_by = ''Metrics'', made_with = [], address = (VStr [], 0),
                      svc_port = 49152, stop_raises = None, stopped = False\<rparr>)]\<rparr>)))
   = [(''metrics'', \<lparr>made_by = ''Metrics'', made_with = [], address = (VStr [], 0),
                      svc_port = 49152, stop_raises = None, stopped = True\<rparr>)]
   \<and> service_ports (snd (stop_services (fresh_node\<lparr>services :=
      [(''metrics'', \<lparr>made_by = ''Metrics'', made_with = [], address = (VStr [], 0),
                      svc_port = 49152, stop_raises = None, stopped = False\<rparr>)]\<rparr>)))
   = [(''metrics'', 49152)]"
  by (simp add: stop_services_def service_ports_def fresh_node_def)

theorem stop_services_witness:
  "stop_services (fresh_node\<lparr>services :=
      [(''web'', \<lparr>made_by = ''Web'', made_with = [], address = (VStr [], 8787),
                      svc_port = 8787, stop_raises = None, stopped = False\<rparr>),
       (''metrics'', \<lparr>made_by = ''Metrics'', made_with = [], address = (VStr [], 0),
                      svc_port = 49152, stop_raises = None, stopped = False\<rparr>)]\<rparr>)
   = (None, fresh_node\<lparr>services :=
      [(''web'', \<lparr>made_by = ''Web'', made_with = [], address = (VStr [], 8787),
                      svc_port = 8787, stop_raises = None, stopped = True\<rparr>),
       (''metrics'', \<lparr>made_by = ''Metrics'', made_with = [], address = (VStr [], 0),
                      svc_port = 49152, stop_raises = None, stopped = True\<rparr>)]\<rparr>)"
  using stop_services_keeps_every_entry [of "fresh_node\<lparr>services :=
      [(''web'', \<lparr>made_by = ''Web'', made_with = [], address = (VStr [], 8787),
                      svc_port = 8787, stop_raises = None, stopped = False\<rparr>),
       (''metrics'', \<lparr>made_by = ''Metrics'', made_with = [], address = (VStr [], 0),
                      svc_port = 49152, stop_raises = None, stopped = False\<rparr>)]\<rparr>"]
  by (simp add: fresh_node_def)

section \<open>Properties of \<open>__await__\<close>\<close>

text \<open>
  C7. Awaiting a node whose status is \<open>running\<close> returns without starting anything:
  the service registry and the status are as before, and the one call made is
  \<open>gen.sleep(0)\<close>; the connection pool is not started again and \<open>close\<close> is not called.
\<close>

theorem await_running_does_nothing:
  "status s = ''running'' \<Longrightarrow>
     fst (await_node rpc close_raises s) = ReturnsNone
     \<and> services (snd (await_node rpc close_raises s)) = services s
     \<and> calls (snd (await_node rpc close_raises s)) = calls s @ [Sleep 0]
     \<and> status (snd (await_node rpc close_raises s)) = ''running''"
  by (simp add: await_node_def)

theorem await_running_witness:
  "fst (await_node Never None (fresh_node\<lparr>status := ''running''\<rparr>)) = ReturnsNone
   \<and> services (snd (await_node Never None (fresh_node\<lparr>status := ''running''\<rparr>))) = []
   \<and> calls (snd (await_node Never None (fresh_node\<lparr>status := ''running''\<rparr>))) = [Sleep 0]
   \<and> status (snd (await_node Never None (fresh_node\<lparr>status := ''running''\<rparr>))) = ''running''"
proof -
  have running: "status (fresh_node\<lparr>status := ''running''\<rparr>) = ''running''"
    by simp
  show ?thesis
    using await_running_does_nothing [OF running, of Never None]
    by (simp add: fresh_node_def)
qed

lemma str_int_small: "str_int 1 = ''1''" "str_int 5 = ''5''" "str_int (- 1) = ''-1''"
  by (simp_all add: str_int_def str_nat.simps)

text \<open>
  C8 (as amended). \<open>__await__\<close> checks the status for \<open>running\<close> only, so a node whose
  status is \<open>closing\<close> or \<open>closed\<close> is awaited like one that was never started, and no
  state error is raised. With no death timeout (or zero) \<open>start\<close> runs, the connection
  pool is started, and the outcome is that of the pool's start. With a positive death
  timeout \<open>start\<close> runs under the timeout, so the pool is started. With a negative one the
  timeout is over before \<open>start\<close> has run: the pool is not started, \<open>close(timeout=1)\<close> is
  awaited and the timeout error (or the exception of \<open>close\<close>) is raised.
\<close>

theorem await_closed_node_starts:
  assumes "status s = ''closing'' \<or> status s = ''closed''"
  shows
    "(death_timeout s = None \<or> death_timeout s = Some 0
       \<longrightarrow> await_node rpc close_raises s = (ending rpc, s\<lparr>calls := calls s @ [RpcStart]\<rparr>))
     \<and> (death_timeout s = Some t \<and> 0 < t
       \<longrightarrow> (\<exists>rest. calls (snd (await_node rpc close_raises s)) = calls s @ RpcStart # rest))
     \<and> (death_timeout s = Some t \<and> t < 0
       \<longrightarrow> await_node rpc close_raises s =
             (case close_raises of
                None \<Rightarrow> Raise (TimeoutError
                          (type_name s @ '' failed to start in '' @ str_int t @ '' seconds''))
              | Some c \<Rightarrow> Raise (Collaborator c),
              s\<lparr>calls := calls s @ [Close 1]\<rparr>))"
  using assms
  by (cases rpc)
     (auto simp add: await_node_def await_directly_def start_def wait_for_def
        asyncio_wait_for_def failed_to_start_def Let_def split: option.splits)

theorem await_closed_node_witness:
  "await_node (Finishes 3 None) None (fresh_node\<lparr>status := ''closing''\<rparr>)
     = (ReturnsSelf, fresh_node\<lparr>status := ''closing'', calls := [RpcStart]\<rparr>)
   \<and> (\<exists>rest. calls (snd (await_node Never None
                  (fresh_node\<lparr>status := ''closed'', death_timeout := Some 5\<rparr>)))
               = RpcStart # rest)
   \<and> await_node (Finishes 0 None) None
         (fresh_node\<lparr>status := ''closed'', death_timeout := Some (- 1)\<rparr>)
     = (Raise (TimeoutError ''Worker failed to start in -1 seconds''),
        fresh_node\<lparr>status := ''closed'', death_timeout := Some (- 1), calls := [Close 1]\<rparr>)"
proof -
  have closing: "status (fresh_node\<lparr>status := ''closing''\<rparr>) = ''closing''
      \<or> status (fresh_node\<lparr>status := ''closing''\<rparr>) = ''closed''"
    by simp
  have closed: "status (fresh_node\<lparr>status := ''closed'', death_timeout := d\<rparr>) = ''closing''
      \<or> status (fresh_node\<lparr>status := ''closed'', death_timeout := d\<rparr>) = ''closed''" for d
    by simp
  have first: "await_node (Finishes 3 None) None (fresh_node\<lparr>status := ''closing''\<rparr>)
     = (ReturnsSelf, fresh_node\<lparr>status := ''closing'', calls := [RpcStart]\<rparr>)"
    using await_closed_node_starts [OF closing, of "Finishes 3 None" None 1]
    by (simp add: fresh_node_def)
  have second: "\<exists>rest. calls (snd (await_node Never None
                  (fresh_node\<lparr>status := ''closed'', death_timeout := Some 5\<rparr>)))
               = RpcStart # rest"
    using await_closed_node_starts [OF closed, of "Some 5" Never None 5]
    by (simp add: fresh_node_def)
  have third: "await_node (Finishes 0 None) None
         (fresh_node\<lparr>status := ''closed'', death_timeout := Some (- 1)\<rparr>)
     = (Raise (TimeoutError ''Worker failed to start in -1 seconds''),
        fresh_node\<lparr>status := ''closed'', death_timeout := Some (- 1), calls := [Close 1]\<rparr>)"
    using await_closed_node_starts [OF closed, of "Some (- 1)" "Finishes 0 None" None "- 1"]
    by (simp add: fresh_node_def str_int_small)
  from first second third show ?thesis by simp
qed

text \<open>
  C8 as stated fails: awaiting a \<open>closed\<close> node whose pool starts at once returns the
  node, after starting the pool; no error is raised.
\<close>

theorem await_closed_node_counterexample:
  "await_node (Finishes 0 None) None (fresh_node\<lparr>status := ''closed''\<rparr>)
     = (ReturnsSelf, fresh_node\<lparr>status := ''closed'', calls := [RpcStart]\<rparr>)"
  by (simp add: await_node_def await_directly_def start_def fresh_node_def)

text \<open>
  C3 (as amended). With a nonzero death timeout, when the start does not complete
  within it, \<open>close(timeout=1)\<close> is awaited; if that returns, the error raised is
  \<open>TimeoutError\<close> with the node's type name and the timeout in its message; if \<open>close\<close>
  raises, the exception of \<open>close\<close> is what leaves \<open>await\<close>. The connection pool has been
  started before that when the timeout is positive, and has not when it is negative.
\<close>

theorem startup_timeout:
  assumes "status s \<noteq> ''running''" and "death_timeout s = Some t" and "t \<noteq> 0"
    and "\<not> completes_within rpc t"
  shows "await_node rpc close_raises s =
           (case close_raises of
              None \<Rightarrow> Raise (TimeoutError (type_name s @ '' failed to start in '' @ str_int t @ '' seconds''))
            | Some c \<Rightarrow> Raise (Collaborator c),
            s\<lparr>calls := calls s @ (if 0 < t then [RpcStart, Close 1] else [Close 1])\<rparr>)"
  using assms
  by (cases rpc)
     (simp_all add: await_node_def start_def wait_for_def asyncio_wait_for_def
        failed_to_start_def split: option.splits)

theorem startup_timeout_witness:
  "await_node Never None (fresh_node\<lparr>death_timeout := Some 1\<rparr>)
     = (Raise (TimeoutError ''Worker failed to start in 1 seconds''),
        fresh_node\<lparr>death_timeout := Some 1, calls := [RpcStart, Close 1]\<rparr>)
   \<and> await_node (Finishes 7 None) None (fresh_node\<lparr>death_timeout := Some 5\<rparr>)
     = (Raise (TimeoutError ''Worker failed to start in 5 seconds''),
        fresh_node\<lparr>death_timeout := Some 5, calls := [RpcStart, Close 1]\<rparr>)
   \<and> await_node (Finishes 0 None) None (fresh_node\<lparr>death_timeout := Some (- 1)\<rparr>)
     = (Raise (TimeoutError ''Worker failed to start in -1 seconds''),
        fresh_node\<lparr>death_timeout := Some (- 1), calls := [Close 1]\<rparr>)"
proof -
  have a: "status (fresh_node\<lparr>death_timeout := d\<rparr>) \<noteq> ''running''" for d
    by (simp add: fresh_node_def)
  have b: "death_timeout (fresh_node\<lparr>death_timeout := Some t\<rparr>) = Some t" for t
    by simp
  have never: "\<not> completes_within Never 1" by simp
  have late: "\<not> completes_within (Finishes 7 None) 5" by simp
  have negative: "\<not> completes_within (Finishes 0 None) (- 1)" by simp
  have first: "await_node Never None (fresh_node\<lparr>death_timeout := Some 1\<rparr>)
     = (Raise (TimeoutError ''Worker failed to start in 1 seconds''),
        fresh_node\<lparr>death_timeout := Some 1, calls := [RpcStart, Close 1]\<rparr>)"
    using startup_timeout [OF a b _ never, of None]
    by (simp add: fresh_node_def str_int_small)
  have second: "await_node (Finishes 7 None) None (fresh_node\<lparr>death_timeout := Some 5\<rparr>)
     = (Raise (TimeoutError ''Worker failed to start in 5 seconds''),
        fresh_node\<lparr>death_timeout := Some 5, calls := [RpcStart, Close 1]\<rparr>)"
    using startup_timeout [OF a b _ late, of None]
    by (simp add: fresh_node_def str_int_small)
  have third: "await_node (Finishes 0 None) None (fresh_node\<lparr>death_timeout := Some (- 1)\<rparr>)
     = (Raise (TimeoutError ''Worker failed to start in -1 seconds''),
        fresh_node\<lparr>death_timeout := Some (- 1), calls := [Close 1]\<rparr>)"
    using startup_timeout [OF a b _ negative, of None]
    by (simp add: fresh_node_def str_int_small)
  from first second third show ?thesis by simp
qed

text \<open>
  C3 as stated fails: when the start never completes and \<open>close\<close> raises, the exception
  of \<open>close\<close> is raised, not the timeout error.
\<close>

theorem startup_timeout_counterexample:
  "await_node Never (Some (Raised True ''close failed'')) (fresh_node\<lparr>death_timeout := Some 1\<rparr>)
     = (Raise (Collaborator (Raised True ''close failed'')),
        fresh_node\<lparr>death_timeout := Some 1, calls := [RpcStart, Close 1]\<rparr>)"
  by (simp add: await_node_def start_def wait_for_def asyncio_wait_for_def fresh_node_def)

text \<open>
  C10 (as amended). With a nonzero death timeout, when the start raises an exception
  deriving from \<open>Exception\<close> before the time is up, \<open>close(timeout=1)\<close> is awaited; if
  that returns, the \<open>failed to start\<close> timeout error is raised in place of the original
  exception; if \<open>close\<close> raises, the exception of \<open>close\<close> is raised. The original
  exception is not what leaves \<open>await\<close>.
\<close>

theorem startup_failure_reported_as_timeout:
  assumes "status s \<noteq> ''running''" and "death_timeout s = Some t" and "t \<noteq> 0"
    and "int d \<le> t" and "from_Exception e"
  shows "await_node (Finishes d (Some e)) close_raises s =
           (case close_raises of
              None \<Rightarrow> Raise (TimeoutError (type_name s @ '' failed to start in '' @ str_int t @ '' seconds''))
            | Some c \<Rightarrow> Raise (Collaborator c),
            s\<lparr>calls := calls s @ [RpcStart, Close 1]\<rparr>)"
proof -
  from assms have "0 < t" by linarith
  with assms show ?thesis
    by (simp add: await_node_def start_def wait_for_def asyncio_wait_for_def
        failed_to_start_def split: option.splits)
qed

theorem startup_failure_witness:
  "await_node (Finishes 2 (Some (Raised True ''pool failed''))) None
       (fresh_node\<lparr>death_timeout := Some 5\<rparr>)
     = (Raise (TimeoutError ''Worker failed to start in 5 seconds''),
        fresh_node\<lparr>death_timeout := Some 5, calls := [RpcStart, Close 1]\<rparr>)"
proof -
  have a: "status (fresh_node\<lparr>death_timeout := Some 5\<rparr>) \<noteq> ''running''"
    by (simp add: fresh_node_def)
  have b: "death_timeout (fresh_node\<lparr>death_timeout := Some 5\<rparr>) = Some 5"
    by simp
  have c: "(5::int) \<noteq> 0" by simp
  have d: "int 2 \<le> 5" by simp
  have e: "from_Exception (Raised True ''pool failed'')" by simp
  show ?thesis
    using startup_failure_reported_as_timeout [OF a b c d e, of None]
    by (simp add: fresh_node_def str_int_small)
qed

text \<open>
  C10 as stated fails: when the pool's start raises and \<open>close\<close> raises as well, the
  error raised is that of \<open>close\<close>, not the timeout error.
\<close>

theorem startup_failure_counterexample:
  "await_node (Finishes 2 (Some (Raised True ''pool failed''))) (Some (Raised True ''close failed''))
       (fresh_node\<lparr>death_timeout := Some 5\<rparr>)
     = (Raise (Collaborator (Raised True ''close failed'')),
        fresh_node\<lparr>death_timeout := Some 5, calls := [RpcStart, Close 1]\<rparr>)"
  by (simp add: await_node_def start_def wait_for_def asyncio_wait_for_def fresh_node_def)

section \<open>Properties of \<open>start_http_server\<close>\<close>

text \<open>The flag \<open>changed_port\<close> after a first \<open>listen\<close> that raised and a retry that bound.\<close>

lemma bind_records_fallback:
  assumes "cls_listen srv (VStr (addr_host a), addr_port a) = Inl e" and "from_Exception e"
    and "cls_listen srv (VStr (addr_host a), 0) = Inr q"
  shows "bind srv a s =
           (Inr (True, q),
            s\<lparr>calls := calls s @ [HttpListen (addr_host a) (addr_port a), HttpListen (addr_host a) 0]\<rparr>)"
  using assms by (simp add: bind_def)

text \<open>
  C9 (as amended). Once the server object is built and the address resolved: when the
  first \<open>listen\<close> raises an exception deriving from \<open>Exception\<close>, \<open>listen\<close> is called
  exactly once more, on the same host with port 0; if that succeeds, the port of the
  bound socket is stored, the server is registered under \<open>dashboard\<close>, and a warning
  naming the requested port and the port in use is issued exactly when
  \<open>dashboard_address\<close> was given (is truthy); if the retry raises, its exception leaves the
  function. When the first \<open>listen\<close> succeeds there is no second call and no warning. When
  the first \<open>listen\<close> raises an exception that does not derive from \<open>Exception\<close>, there is
  no retry: that exception leaves the function.
\<close>

theorem dashboard_bind_fallback:
  assumes "make_server env = None"
    and "resolve_http_address env dashboard_address default_port = Inr a"
  shows "(cls_listen (http_server_class env) (VStr (addr_host a), addr_port a) = Inl e
            \<and> from_Exception e
          \<longrightarrow> start_http_server env dashboard_address default_port s =
           (case cls_listen (http_server_class env) (VStr (addr_host a), 0) of
              Inl e' \<Rightarrow>
                (Some (Collaborator e'),
                 s\<lparr>calls := calls s @ [HttpListen (addr_host a) (addr_port a),
                                        HttpListen (addr_host a) 0]\<rparr>)
            | Inr q \<Rightarrow>
                (None,
                 s\<lparr>calls := calls s @ [HttpListen (addr_host a) (addr_port a),
                                        HttpListen (addr_host a) 0],
                   services :=
                     AList.update ''dashboard''
                       \<lparr>made_by = cls_name (http_server_class env), made_with = [],
                        address = (VStr (addr_host a), 0), svc_port = q,
                        stop_raises = cls_stop (http_server_class env), stopped = False\<rparr>
                       (services s),
                   warnings :=
                     (if truthy dashboard_address
                      then warnings s @
                        [''Port '' @ str_int (addr_port a) @ '' is already in use.''
                           @ [CHR 0x0A] @ ''Perhaps you already have a cluster running?''
                           @ [CHR 0x0A] @ ''Hosting the HTTP server on port '' @ str_int q
                           @ '' instead'']
                      else warnings s)\<rparr>)))
       \<and> (cls_listen (http_server_class env) (VStr (addr_host a), addr_port a) = Inr bound
          \<longrightarrow> start_http_server env dashboard_address default_port s =
                (None,
                 s\<lparr>calls := calls s @ [HttpListen (addr_host a) (addr_port a)],
                   services :=
                     AList.update ''dashboard''
                       \<lparr>made_by = cls_name (http_server_class env), made_with = [],
                        address = (VStr (addr_host a), addr_port a), svc_port = bound,
                        stop_raises = cls_stop (http_server_class env), stopped = False\<rparr>
                       (services s)\<rparr>))
       \<and> (cls_listen (http_server_class env) (VStr (addr_host a), addr_port a) = Inl e
            \<and> \<not> from_Exception e
          \<longrightarrow> start_http_server env dashboard_address default_port s =
                (Some (Collaborator e),
                 s\<lparr>calls := calls s @ [HttpListen (addr_host a) (addr_port a)]\<rparr>))"
  using assms
  by (simp add: start_http_server_def bind_and_register_def bind_def port_warning_def
      split: sum.splits)

lemma dashboard_env_ready:
  "cls_init server [] = None \<Longrightarrow> make_server (dashboard_env server) = None"
  by (simp add: make_server_def dashboard_env_def)

lemma dashboard_env_address:
  "resolve_http_address (dashboard_env server) (DashInt 8787) 0 = Inr \<lparr>addr_host = [], addr_port = 8787\<rparr>"
  by (simp add: resolve_http_address_def dashboard_env_def)

lemma dashboard_env_default_address:
  "resolve_http_address (dashboard_env server) DashNone 8787 = Inr \<lparr>addr_host = [], addr_port = 8787\<rparr>"
  by (simp add: resolve_http_address_def dashboard_env_def)

lemma str_int_examples: "str_int 8787 = ''8787''" "str_int 49152 = ''49152''"
  by (simp_all add: str_int_def str_nat.simps)

theorem dashboard_bind_witness:
  "start_http_server (dashboard_env (port_taken ''HTTPServer'' 8787)) (DashInt 8787) 0 fresh_node
     = (None,
        fresh_node\<lparr>calls := [HttpListen [] 8787, HttpListen [] 0],
          services := [(''dashboard'',
             \<lparr>made_by = ''HTTPServer'', made_with = [], address = (VStr [], 0),
              svc_port = 49152, stop_raises = None, stopped = False\<rparr>)],
          warnings := [''Port 8787 is already in use.'' @ [CHR 0x0A]
             @ ''Perhaps you already have a cluster running?'' @ [CHR 0x0A]
             @ ''Hosting the HTTP server on port 49152 instead'']\<rparr>)
   \<and> start_http_server (dashboard_env (port_taken ''HTTPServer'' 8787)) DashNone 8787 fresh_node
     = (None,
        fresh_node\<lparr>calls := [HttpListen [] 8787, HttpListen [] 0],
          services := [(''dashboard'',
             \<lparr>made_by = ''HTTPServer'', made_with = [], address = (VStr [], 0),
              svc_port = 49152, stop_raises = None, stopped = False\<rparr>)]\<rparr>)
   \<and> start_http_server (dashboard_env (port_taken ''HTTPServer'' 9999)) (DashInt 8787) 0 fresh_node
     = (None,
        fresh_node\<lparr>calls := [HttpListen [] 8787],
          services := [(''dashboard'',
             \<lparr>made_by = ''HTTPServer'', made_with = [], address = (VStr [], 8787),
              svc_port = 8787, stop_raises = None, stopped = False\<rparr>)]\<rparr>)
   \<and> start_http_server (dashboard_env (interrupted_listen ''HTTPServer'')) DashNone 8787 fresh_node
     = (Some (Collaborator (Raised False ''KeyboardInterrupt'')),
        fresh_node\<lparr>calls := [HttpListen [] 8787]\<rparr>)"
proof -
  have ready: "make_server (dashboard_env (port_taken ''HTTPServer'' b)) = None" for b
    by (rule dashboard_env_ready) (simp add: port_taken_def)
  have ready': "make_server (dashboard_env (interrupted_listen ''HTTPServer'')) = None"
    by (rule dashboard_env_ready) (simp add: interrupted_listen_def)
  have busy: "cls_listen (http_server_class (dashboard_env (port_taken ''HTTPServer'' 8787)))
                (VStr [], 8787) = Inl (Raised True ''Address already in use'')"
    by (simp add: dashboard_env_def port_taken_def)
  have free: "cls_listen (http_server_class (dashboard_env (port_taken ''HTTPServer'' 9999)))
                (VStr [], 8787) = Inr 8787"
    by (simp add: dashboard_env_def port_taken_def)
  have retry: "cls_listen (http_server_class (dashboard_env (port_taken ''HTTPServer'' 8787)))
                (VStr [], 0) = Inr 49152"
    by (simp add: dashboard_env_def port_taken_def)
  have stopped: "cls_listen (http_server_class (dashboard_env (interrupted_listen ''HTTPServer'')))
                (VStr [], 8787) = Inl (Raised False ''KeyboardInterrupt'')"
    by (simp add: dashboard_env_def interrupted_listen_def)
  have names: "cls_name (http_server_class (dashboard_env (port_taken ''HTTPServer'' b))) = ''HTTPServer''"
      "cls_stop (http_server_class (dashboard_env (port_taken ''HTTPServer'' b))) = None" for b
    by (simp_all add: dashboard_env_def port_taken_def)
  have first: "start_http_server (dashboard_env (port_taken ''HTTPServer'' 8787)) (DashInt 8787) 0 fresh_node
     = (None,
        fresh_node\<lparr>calls := [HttpListen [] 8787, HttpListen [] 0],
          services := [(''dashboard'',
             \<lparr>made_by = ''HTTPServer'', made_with = [], address = (VStr [], 0),
              svc_port = 49152, stop_raises = None, stopped = False\<rparr>)],
          warnings := [''Port 8787 is already in use.'' @ [CHR 0x0A]
             @ ''Perhaps you already have a cluster running?'' @ [CHR 0x0A]
             @ ''Hosting the HTTP server on port 49152 instead'']\<rparr>)"
    using dashboard_bind_fallback [OF ready [of 8787]
          dashboard_env_address [of "port_taken ''HTTPServer'' 8787"],
        where e = "Raised True ''Address already in use''" and s = fresh_node and bound = 0]
      busy retry
    by (simp add: names port_warning_def str_int_examples fresh_node_def)
  have second: "start_http_server (dashboard_env (port_taken ''HTTPServer'' 8787)) DashNone 8787 fresh_node
     = (None,
        fresh_node\<lparr>calls := [HttpListen [] 8787, HttpListen [] 0],
          services := [(''dashboard'',
             \<lparr>made_by = ''HTTPServer'', made_with = [], address = (VStr [], 0),
              svc_port = 49152, stop_raises = None, stopped = False\<rparr>)]\<rparr>)"
    using dashboard_bind_fallback [OF ready [of 8787]
          dashboard_env_default_address [of "port_taken ''HTTPServer'' 8787"],
        where e = "Raised True ''Address already in use''" and s = fresh_node and bound = 0]
      busy retry
    by (simp add: names fresh_node_def)
  have third: "start_http_server (dashboard_env (port_taken ''HTTPServer'' 9999)) (DashInt 8787) 0 fresh_node
     = (None,
        fresh_node\<lparr>calls := [HttpListen [] 8787],
          services := [(''dashboard'',
             \<lparr>made_by = ''HTTPServer'', made_with = [], address = (VStr [], 8787),
              svc_port = 8787, stop_raises = None, stopped = False\<rparr>)]\<rparr>)"
    using dashboard_bind_fallback [OF ready [of 9999]
          dashboard_env_address [of "port_taken ''HTTPServer'' 9999"],
        where bound = 8787 and s = fresh_node and e = "Raised True []"]
      free
    by (simp add: names fresh_node_def)
  have fourth: "start_http_server (dashboard_env (interrupted_listen ''HTTPServer'')) DashNone 8787 fresh_node
     = (Some (Collaborator (Raised False ''KeyboardInterrupt'')),
        fresh_node\<lparr>calls := [HttpListen [] 8787]\<rparr>)"
    using dashboard_bind_fallback [OF ready'
          dashboard_env_default_address [of "interrupted_listen ''HTTPServer''"],
        where e = "Raised False ''KeyboardInterrupt''" and s = fresh_node and bound = 0]
      stopped
    by (simp add: fresh_node_def)
  from first second third fourth show ?thesis by simp
qed

text \<open>
  C9 as stated fails: a first \<open>listen\<close> interrupted by \<open>KeyboardInterrupt\<close>, which does not
  derive from \<open>Exception\<close>, is not retried; \<open>listen\<close> has been called once, nothing is
  registered and the exception leaves \<open>start_http_server\<close>.
\<close>

theorem dashboard_bind_counterexample:
  "start_http_server (dashboard_env (interrupted_listen ''HTTPServer'')) (DashInt 8787) 0 fresh_node
     = (Some (Collaborator (Raised False ''KeyboardInterrupt'')),
        fresh_node\<lparr>calls := [HttpListen [] 8787]\<rparr>)"
  by (simp add: start_http_server_def make_server_def resolve_http_address_def
      bind_and_register_def bind_def dashboard_env_def interrupted_listen_def fresh_node_def)

end
